theory Spec2Isabelle
  imports Main
begin

section \<open>Notification model (models/notification.py)\<close>

text \<open>
  Time. A \<open>datetime\<close> is the number of microseconds since the epoch. The source reads the
  wall clock with \<open>datetime.utcnow()\<close>; the \<open>clock\<close> gives the value of the k-th such
  read, and every operation takes the index of its first read and returns the index of
  the next one. Nothing is assumed about the clock (it need not be monotone).
\<close>

type_synonym datetime = int
type_synonym clock = "nat \<Rightarrow> datetime"
type_synonym uuid = string

datatype NotificationType = EMAIL | IN_APP | SYSTEM

datatype NotificationStatus = PENDING | SENT | FAILED | CANCELLED

datatype NotificationPriority = LOW | MEDIUM | HIGH | URGENT

fun type_value :: "NotificationType \<Rightarrow> string" where
  "type_value EMAIL = ''email''"
| "type_value IN_APP = ''in_app''"
| "type_value SYSTEM = ''system''"

fun status_value :: "NotificationStatus \<Rightarrow> string" where
  "status_value PENDING = ''pending''"
| "status_value SENT = ''sent''"
| "status_value FAILED = ''failed''"
| "status_value CANCELLED = ''cancelled''"

fun priority_value :: "NotificationPriority \<Rightarrow> string" where
  "priority_value LOW = ''low''"
| "priority_value MEDIUM = ''medium''"
| "priority_value HIGH = ''high''"
| "priority_value URGENT = ''urgent''"

text \<open>
  Python values whose type the constructor checks at run time (\<open>isinstance\<close>) or tests
  for truth (\<open>not x\<close>).
\<close>

datatype pyval =
    PNone
  | PBool bool
  | PInt int
  | PStr string
  | PList "pyval list"
  | PDict "(string \<times> pyval) list"

fun truthy :: "pyval \<Rightarrow> bool" where
  "truthy PNone = False"
| "truthy (PBool b) = b"
| "truthy (PInt i) = (i \<noteq> 0)"
| "truthy (PStr s) = (s \<noteq> [])"
| "truthy (PList xs) = (xs \<noteq> [])"
| "truthy (PDict kvs) = (kvs \<noteq> [])"

fun isinstance_str :: "pyval \<Rightarrow> bool" where
  "isinstance_str (PStr s) = True"
| "isinstance_str v = False"

fun isinstance_dict :: "pyval \<Rightarrow> bool" where
  "isinstance_dict (PDict kvs) = True"
| "isinstance_dict v = False"

text \<open>
  Exceptions, and the outcome of a call: it returns a value, raises, or (for an
  \<open>await\<close> on a full queue) stays suspended. Operations that mutate an object return the
  object as it is when the call ends, also when the call raises.
\<close>

datatype exn =
    ValueError string
  | SMTPException string
  | ConnectionError string
  | OtherException string
  | RetryError
  | HTTPException nat string

fun str_exn :: "exn \<Rightarrow> string" where
  "str_exn (ValueError m) = m"
| "str_exn (SMTPException m) = m"
| "str_exn (ConnectionError m) = m"
| "str_exn (OtherException m) = m"
| "str_exn RetryError = ''RetryError''"
| "str_exn (HTTPException code detail) = detail"

datatype 'a result = Returns 'a | Raises exn | Blocks

text \<open>One entry of \<open>error_messages\<close>: the dictionary with keys timestamp, message, retry_count.\<close>

record error_entry =
  err_timestamp :: datetime
  err_message :: string
  err_retry_count :: nat

text \<open>One entry of \<open>metadata["status_history"]\<close>.\<close>

record status_change =
  sc_status :: string
  sc_timestamp :: datetime
  sc_error :: "string option"

text \<open>
  The metadata dictionary. The keys the model itself writes are typed fields (a key that
  is absent is \<open>None\<close>); the entries the caller supplied under other keys are carried
  along and never read. The entry \<open>status_history\<close>, when present, is typed as the list
  that \<open>update_status\<close> stores there.
\<close>

record metadata =
  caller_entries :: "(string \<times> pyval) list"
  correlation_id :: "string option"
  source_service :: "string option"
  priority_level :: "string option"
  notification_type_name :: "string option"
  last_status_change :: "datetime option"
  status_history :: "status_change list option"

record notification =
  template_name :: pyval
  notification_type :: NotificationType
  content :: pyval
  recipients :: "string list"
  priority :: NotificationPriority
  metadata :: metadata
  scheduled_for :: "datetime option"
  nid :: uuid
  status :: NotificationStatus
  created_at :: datetime
  updated_at :: datetime
  retry_count :: nat
  error_messages :: "error_entry list"

text \<open>
  The arguments of a constructor call \<open>Notification(template_name=..., ...)\<close> that leaves
  the auto-generated fields (id, status, created_at, updated_at, retry_count,
  error_messages) to their defaults, as every call in the repository does.
\<close>

record init_args =
  a_template_name :: pyval
  a_notification_type :: NotificationType
  a_content :: pyval
  a_recipients :: "string list"
  a_priority :: NotificationPriority
  a_metadata :: "(string \<times> pyval) list"
  a_scheduled_for :: "datetime option"

text \<open>
  The generated \<open>__init__\<close> followed by \<open>__post_init__\<close>. The defaults read the clock
  twice (created_at, updated_at); the schedule check reads it a third time, only when
  \<open>scheduled_for\<close> is set. \<open>uid\<close> and \<open>cid\<close> are the two values of \<open>uuid4()\<close>.
\<close>

definition scheduled_in_past :: "datetime option \<Rightarrow> datetime \<Rightarrow> bool" where
  "scheduled_in_past sf now = (case sf of None \<Rightarrow> False | Some t \<Rightarrow> t < now)"

definition reads_of_schedule :: "datetime option \<Rightarrow> nat" where
  "reads_of_schedule sf = (case sf of None \<Rightarrow> 0 | Some t \<Rightarrow> 1)"

definition post_init ::
  "clock \<Rightarrow> nat \<Rightarrow> uuid \<Rightarrow> uuid \<Rightarrow> init_args \<Rightarrow> notification result \<times> nat" where
  "post_init clk k uid cid a =
     (if \<not> truthy (a_template_name a) \<or> \<not> isinstance_str (a_template_name a) then
        (Raises (ValueError ''Invalid template name''), k + 2)
      else if a_recipients a = [] then
        (Raises (ValueError ''Recipients list cannot be empty''), k + 2)
      else if \<not> isinstance_dict (a_content a) then
        (Raises (ValueError ''Content must be a dictionary''), k + 2)
      else if scheduled_in_past (a_scheduled_for a) (clk (k + 2)) then
        (Raises (ValueError ''Scheduled time cannot be in the past''), k + 3)
      else
        (Returns
          \<lparr> template_name = a_template_name a,
            notification_type = a_notification_type a,
            content = a_content a,
            recipients = a_recipients a,
            priority = a_priority a,
            metadata =
              \<lparr> caller_entries = a_metadata a,
                correlation_id = Some cid,
                source_service = Some ''notification-service'',
                priority_level = Some (priority_value (a_priority a)),
                notification_type_name = Some (type_value (a_notification_type a)),
                last_status_change = None,
                status_history = None \<rparr>,
            scheduled_for = a_scheduled_for a,
            nid = uid,
            status = PENDING,
            created_at = clk k,
            updated_at = clk (k + 1),
            retry_count = 0,
            error_messages = [] \<rparr>,
         k + 2 + reads_of_schedule (a_scheduled_for a)))"

text \<open>
  The two configured values \<open>can_retry\<close> reads (NOTIFICATION_RETRY_ATTEMPTS and
  NOTIFICATION_RETRY_DELAY, the latter in seconds); \<open>validate_config\<close> admits only
  positive values.
\<close>

record config =
  NOTIFICATION_RETRY_ATTEMPTS :: nat
  NOTIFICATION_RETRY_DELAY :: nat

text \<open>
  \<open>timedelta.total_seconds() >= d\<close> for a whole number \<open>d\<close> of seconds, on a difference
  given in microseconds.
\<close>

definition total_seconds_ge :: "int \<Rightarrow> nat \<Rightarrow> bool" where
  "total_seconds_ge delta d = (int d * 1000000 \<le> delta)"

definition last_attempt :: "notification \<Rightarrow> datetime" where
  "last_attempt n =
     (if error_messages n \<noteq> [] then Max (set (map err_timestamp (error_messages n)))
      else created_at n)"

definition can_retry :: "config \<Rightarrow> clock \<Rightarrow> nat \<Rightarrow> notification \<Rightarrow> bool \<times> nat" where
  "can_retry cfg clk k n =
     (if retry_count n \<ge> NOTIFICATION_RETRY_ATTEMPTS cfg then (False, k)
      else if status n \<noteq> FAILED then (False, k)
      else
        let base_delay = NOTIFICATION_RETRY_DELAY cfg;
            current_delay = base_delay * 2 ^ retry_count n;
            time_since_last_attempt = clk k - last_attempt n
        in (total_seconds_ge time_since_last_attempt current_delay, k + 1))"

fun valid_transitions :: "NotificationStatus \<Rightarrow> NotificationStatus set" where
  "valid_transitions PENDING = {SENT, FAILED, CANCELLED}"
| "valid_transitions FAILED = {PENDING, CANCELLED}"
| "valid_transitions SENT = {FAILED}"
| "valid_transitions CANCELLED = {}"

definition invalid_transition_message :: "NotificationStatus \<Rightarrow> NotificationStatus \<Rightarrow> string" where
  "invalid_transition_message cur new =
     ''Invalid status transition from '' @ status_value cur @ '' to '' @ status_value new"

text \<open>Truth of an \<open>Optional[str]\<close>: neither \<open>None\<close> nor the empty string.\<close>

fun message_given :: "string option \<Rightarrow> bool" where
  "message_given None = False"
| "message_given (Some m) = (m \<noteq> [])"

fun message_text :: "string option \<Rightarrow> string" where
  "message_text None = []"
| "message_text (Some m) = m"

definition track_error :: "clock \<Rightarrow> nat \<Rightarrow> string \<Rightarrow> notification \<Rightarrow> notification" where
  "track_error clk k m n =
     n\<lparr> error_messages := error_messages n @
           [\<lparr> err_timestamp = clk k, err_message = m, err_retry_count = retry_count n \<rparr>],
        retry_count := retry_count n + 1 \<rparr>"

definition history_of :: "metadata \<Rightarrow> status_change list" where
  "history_of md = (case status_history md of None \<Rightarrow> [] | Some h \<Rightarrow> h)"

definition record_change ::
  "clock \<Rightarrow> nat \<Rightarrow> NotificationStatus \<Rightarrow> string option \<Rightarrow> metadata \<Rightarrow> metadata" where
  "record_change clk k new_status error_message md =
     md\<lparr> last_status_change := Some (clk k),
         status_history := Some (history_of md @
           [\<lparr> sc_status = status_value new_status,
              sc_timestamp = clk (k + 1),
              sc_error = (if message_given error_message then error_message else None) \<rparr>]) \<rparr>"

text \<open>
  \<open>update_status\<close>: the transition check comes first and raises before anything is
  written. The clock is read for updated_at, then (when an error is tracked) for the
  error entry, then twice for the metadata.
\<close>

definition update_status ::
  "clock \<Rightarrow> nat \<Rightarrow> NotificationStatus \<Rightarrow> string option \<Rightarrow> notification
     \<Rightarrow> unit result \<times> notification \<times> nat" where
  "update_status clk k new_status error_message n =
     (if new_status \<notin> valid_transitions (status n) then
        (Raises (ValueError (invalid_transition_message (status n) new_status)), n, k)
      else
        let n1 = n\<lparr> status := new_status, updated_at := clk k \<rparr>;
            tracked = (message_given error_message \<and> new_status = FAILED);
            n2 = (if tracked then track_error clk (k + 1) (message_text error_message) n1 else n1);
            k2 = (if tracked then k + 2 else k + 1);
            n3 = n2\<lparr> metadata := record_change clk k2 new_status error_message (metadata n2) \<rparr>
        in (Returns (), n3, k2 + 2))"


section \<open>Service state and environment\<close>

text \<open>
  What lies outside the repository is an environment: the clock, the outcome of each run
  of the part of \<open>send_email\<close> that assembles the message, renders the template, connects
  and calls \<open>send_message\<close>, and the regular expression that accepts a recipient.
\<close>

datatype transport_outcome =
    Delivered
  | SmtpFault string
  | ConnFault string
  | OtherFault string

record env =
  utcnow :: clock
  smtp :: "nat \<Rightarrow> transport_outcome"
  email_pattern :: "string \<Rightarrow> bool"

text \<open>
  The state of the service: the four bounded queues, the value of each rate-limiter
  counter, and how many clock reads and transport runs have happened. The metrics
  counters (\<open>NOTIFICATION_METRICS\<close>, \<open>EmailService._metrics\<close>) are written and never read,
  and are left out.
\<close>

record world =
  priority_queues :: "NotificationPriority \<Rightarrow> notification list"
  rate_limiters :: "NotificationType \<Rightarrow> nat"
  reads :: nat
  smtp_runs :: nat

section \<open>Email service (services/email_service.py)\<close>

definition MAX_RETRIES :: nat where
  "MAX_RETRIES = 3"

text \<open>
  \<open>_handle_smtp_error\<close> and \<open>_handle_error\<close> differ in the prefix of the message. Each runs
  inside an \<open>except\<close> block that ends with \<open>raise\<close>: when the handler's own
  \<open>update_status\<close> raises, that exception leaves the block instead of the caught one.
\<close>

definition handle_with ::
  "string \<Rightarrow> env \<Rightarrow> exn \<Rightarrow> notification \<Rightarrow> world \<Rightarrow> bool result \<times> notification \<times> world" where
  "handle_with prefix e x n w =
     (case update_status (utcnow e) (reads w) FAILED (Some (prefix @ str_exn x)) n of
        (Returns u, n', k') \<Rightarrow> (Raises x, n', w\<lparr>reads := k'\<rparr>)
      | (Raises y, n', k') \<Rightarrow> (Raises y, n', w\<lparr>reads := k'\<rparr>)
      | (Blocks, n', k') \<Rightarrow> (Blocks, n', w\<lparr>reads := k'\<rparr>))"

definition handle_smtp_error ::
  "env \<Rightarrow> exn \<Rightarrow> notification \<Rightarrow> world \<Rightarrow> bool result \<times> notification \<times> world" where
  "handle_smtp_error = handle_with ''SMTP Error: ''"

definition handle_error ::
  "env \<Rightarrow> exn \<Rightarrow> notification \<Rightarrow> world \<Rightarrow> bool result \<times> notification \<times> world" where
  "handle_error = handle_with ''Error sending email: ''"

definition validate_recipients :: "env \<Rightarrow> string list \<Rightarrow> string list" where
  "validate_recipients e rs = filter (email_pattern e) rs"

text \<open>One run of the body of \<open>send_email\<close> (its \<open>try\<close> with both \<open>except\<close> blocks).\<close>

definition send_email_once ::
  "env \<Rightarrow> notification \<Rightarrow> world \<Rightarrow> bool result \<times> notification \<times> world" where
  "send_email_once e n w =
     (if notification_type n \<noteq> EMAIL then
        handle_error e (ValueError ''Invalid notification type for email service'') n w
      else if validate_recipients e (recipients n) = [] then
        handle_error e (ValueError ''No valid recipients provided'') n w
      else
        let w1 = w\<lparr>smtp_runs := smtp_runs w + 1\<rparr> in
        (case smtp e (smtp_runs w) of
           SmtpFault m \<Rightarrow> handle_smtp_error e (SMTPException m) n w1
         | ConnFault m \<Rightarrow> handle_error e (ConnectionError m) n w1
         | OtherFault m \<Rightarrow> handle_error e (OtherException m) n w1
         | Delivered \<Rightarrow>
             (case update_status (utcnow e) (reads w1) SENT None n of
                (Returns u, n', k') \<Rightarrow> (Returns True, n', w1\<lparr>reads := k'\<rparr>)
              | (Raises x, n', k') \<Rightarrow> handle_error e x n' (w1\<lparr>reads := k'\<rparr>)
              | (Blocks, n', k') \<Rightarrow> (Blocks, n', w1\<lparr>reads := k'\<rparr>))))"

text \<open>
  The decorator \<open>backoff.on_exception(expo, (SMTPException, ConnectionError),
  max_tries=MAX_RETRIES)\<close>: the body runs again after one of the two listed exceptions,
  at most \<open>MAX_RETRIES\<close> times in all; the last exception is raised on. The argument
  counts the runs still allowed after this one.
\<close>

fun backoff_retries :: "exn \<Rightarrow> bool" where
  "backoff_retries (SMTPException m) = True"
| "backoff_retries (ConnectionError m) = True"
| "backoff_retries x = False"

fun on_exception ::
  "nat \<Rightarrow> env \<Rightarrow> notification \<Rightarrow> world \<Rightarrow> bool result \<times> notification \<times> world" where
  "on_exception 0 e n w = send_email_once e n w"
| "on_exception (Suc r) e n w =
     (case send_email_once e n w of
        (Raises x, n', w') \<Rightarrow>
          if backoff_retries x then on_exception r e n' w' else (Raises x, n', w')
      | (Returns b, n', w') \<Rightarrow> (Returns b, n', w')
      | (Blocks, n', w') \<Rightarrow> (Blocks, n', w'))"

definition send_email ::
  "env \<Rightarrow> notification \<Rightarrow> world \<Rightarrow> bool result \<times> notification \<times> world" where
  "send_email = on_exception (MAX_RETRIES - 1)"

section \<open>Notification service (services/notification_service.py)\<close>

fun maxsize :: "NotificationPriority \<Rightarrow> nat" where
  "maxsize URGENT = 1000"
| "maxsize HIGH = 2000"
| "maxsize MEDIUM = 5000"
| "maxsize LOW = 10000"

fun max_rates :: "NotificationType \<Rightarrow> nat" where
  "max_rates EMAIL = 100"
| "max_rates IN_APP = 1000"
| "max_rates SYSTEM = 500"

definition initial_world :: world where
  "initial_world =
     \<lparr> priority_queues = (\<lambda>p. []), rate_limiters = (\<lambda>t. 0), reads = 0, smtp_runs = 0 \<rparr>"

definition check_rate_limit :: "NotificationType \<Rightarrow> world \<Rightarrow> bool" where
  "check_rate_limit ty w =
     (let current_rate = rate_limiters w ty
      in current_rate < max_rates ty)"

text \<open>
  \<open>await self._priority_queues[priority].put(notification)\<close> on an
  \<open>asyncio.Queue(maxsize=...)\<close>: the item is appended when there is a free slot;
  on a full queue the call waits for one, and raises nothing.
\<close>

definition enqueue :: "NotificationPriority \<Rightarrow> notification \<Rightarrow> world \<Rightarrow> unit result \<times> world" where
  "enqueue p n w =
     (if maxsize p \<le> length (priority_queues w p) then (Blocks, w)
      else (Returns (),
            w\<lparr>priority_queues := (priority_queues w)(p := priority_queues w p @ [n])\<rparr>))"

definition process_email_notification ::
  "env \<Rightarrow> notification \<Rightarrow> world \<Rightarrow> bool result \<times> notification \<times> world" where
  "process_email_notification e n w =
     (case send_email e n w of
        (Returns b, n', w') \<Rightarrow> (Returns b, n', w')
      | (Raises x, n', w') \<Rightarrow> (Returns False, n', w')
      | (Blocks, n', w') \<Rightarrow> (Blocks, n', w'))"

definition process_in_app_notification ::
  "env \<Rightarrow> notification \<Rightarrow> world \<Rightarrow> bool result \<times> notification \<times> world" where
  "process_in_app_notification e n w = (Returns True, n, w)"

definition process_system_notification ::
  "env \<Rightarrow> notification \<Rightarrow> world \<Rightarrow> bool result \<times> notification \<times> world" where
  "process_system_notification e n w = (Returns True, n, w)"

text \<open>
  The \<open>except Exception\<close> block of \<open>send_notification\<close>: record the failure with the
  exception's text, then re-raise.
\<close>

definition on_processing_error ::
  "env \<Rightarrow> exn \<Rightarrow> notification \<Rightarrow> world \<Rightarrow> bool result \<times> notification \<times> world" where
  "on_processing_error e x n w =
     (case update_status (utcnow e) (reads w) FAILED (Some (str_exn x)) n of
        (Returns u, n', k') \<Rightarrow> (Raises x, n', w\<lparr>reads := k'\<rparr>)
      | (Raises y, n', k') \<Rightarrow> (Raises y, n', w\<lparr>reads := k'\<rparr>)
      | (Blocks, n', k') \<Rightarrow> (Blocks, n', w\<lparr>reads := k'\<rparr>))"

text \<open>One run of the body of \<open>send_notification\<close>.\<close>

definition send_notification_once ::
  "env \<Rightarrow> notification \<Rightarrow> NotificationPriority \<Rightarrow> world
     \<Rightarrow> bool result \<times> notification \<times> world" where
  "send_notification_once e n p w =
     (if \<not> check_rate_limit (notification_type n) w then
        (case enqueue p n w of
           (Returns u, w') \<Rightarrow> (Returns False, n, w')
         | (Raises x, w') \<Rightarrow> on_processing_error e x n w'
         | (Blocks, w') \<Rightarrow> (Blocks, n, w'))
      else
        (case (case notification_type n of
                 EMAIL \<Rightarrow> process_email_notification e n w
               | IN_APP \<Rightarrow> process_in_app_notification e n w
               | SYSTEM \<Rightarrow> process_system_notification e n w) of
           (Returns success, n1, w1) \<Rightarrow>
             (case update_status (utcnow e) (reads w1)
                     (if success then SENT else FAILED) None n1 of
                (Returns u, n2, k2) \<Rightarrow> (Returns success, n2, w1\<lparr>reads := k2\<rparr>)
              | (Raises x, n2, k2) \<Rightarrow> on_processing_error e x n2 (w1\<lparr>reads := k2\<rparr>)
              | (Blocks, n2, k2) \<Rightarrow> (Blocks, n2, w1\<lparr>reads := k2\<rparr>))
         | (Raises x, n1, w1) \<Rightarrow> on_processing_error e x n1 w1
         | (Blocks, n1, w1) \<Rightarrow> (Blocks, n1, w1)))"

text \<open>
  \<open>RETRY_POLICY = retry(stop=stop_after_attempt(3), ...)\<close>: the body runs again after any
  exception, three times in all, and \<open>RetryError\<close> is raised after the third failure.
  The argument counts the runs still allowed after this one.
\<close>

fun retry_policy ::
  "nat \<Rightarrow> env \<Rightarrow> notification \<Rightarrow> NotificationPriority \<Rightarrow> world
     \<Rightarrow> bool result \<times> notification \<times> world" where
  "retry_policy 0 e n p w =
     (case send_notification_once e n p w of
        (Raises x, n', w') \<Rightarrow> (Raises RetryError, n', w')
      | (Returns b, n', w') \<Rightarrow> (Returns b, n', w')
      | (Blocks, n', w') \<Rightarrow> (Blocks, n', w'))"
| "retry_policy (Suc r) e n p w =
     (case send_notification_once e n p w of
        (Raises x, n', w') \<Rightarrow> retry_policy r e n' p w'
      | (Returns b, n', w') \<Rightarrow> (Returns b, n', w')
      | (Blocks, n', w') \<Rightarrow> (Blocks, n', w'))"

definition send_notification ::
  "env \<Rightarrow> notification \<Rightarrow> NotificationPriority \<Rightarrow> world
     \<Rightarrow> bool result \<times> notification \<times> world" where
  "send_notification = retry_policy 2"







section \<open>Controller (controllers/notification_controller.py)\<close>









section \<open>The specification's tables\<close>



section \<open>Example values\<close>

text \<open>A clock that advances by one second at every read.\<close>

definition second_clock :: clock where
  "second_clock i = 1000000 * int i"

definition example_args :: init_args where
  "example_args =
     \<lparr> a_template_name = PStr ''welcome_email'',
       a_notification_type = IN_APP,
       a_content = PDict [(''user_name'', PStr ''John Doe'')],
       a_recipients = [''john@example.com''],
       a_priority = HIGH,
       a_metadata = [],
       a_scheduled_for = None \<rparr>"

definition example_notification :: notification where
  "example_notification =
     \<lparr> template_name = PStr ''welcome_email'',
       notification_type = IN_APP,
       content = PDict [(''user_name'', PStr ''John Doe'')],
       recipients = [''john@example.com''],
       priority = HIGH,
       metadata =
         \<lparr> caller_entries = [],
           correlation_id = Some ''cid-1'',
           source_service = Some ''notification-service'',
           priority_level = Some ''high'',
           notification_type_name = Some ''in_app'',
           last_status_change = None,
           status_history = None \<rparr>,
       scheduled_for = None,
       nid = ''id-1'',
       status = PENDING,
       created_at = 0,
       updated_at = 1000000,
       retry_count = 0,
       error_messages = [] \<rparr>"

definition example_config :: config where
  "example_config = \<lparr> NOTIFICATION_RETRY_ATTEMPTS = 3, NOTIFICATION_RETRY_DELAY = 300 \<rparr>"

definition failed_once :: notification where
  "failed_once =
     example_notification
       \<lparr> status := FAILED, updated_at := 2000000, retry_count := 1,
         error_messages :=
           [\<lparr> err_timestamp = 3000000, err_message = ''timeout'', err_retry_count = 0 \<rparr>] \<rparr>"



text \<open>
  The operations on a notification after its creation, to state what holds of a notification
  at all times: any sequence of calls of \<open>update_status\<close> (returning or raising) and of
  \<open>can_retry\<close>.
\<close>

datatype operation = UpdateStatus NotificationStatus "string option" | CanRetry

fun apply_operation ::
  "config \<Rightarrow> clock \<Rightarrow> operation \<Rightarrow> notification \<times> nat \<Rightarrow> notification \<times> nat" where
  "apply_operation cfg clk (UpdateStatus s m) (n, k) = snd (update_status clk k s m n)"
| "apply_operation cfg clk CanRetry (n, k) = (n, snd (can_retry cfg clk k n))"

definition apply_operations ::
  "config \<Rightarrow> clock \<Rightarrow> operation list \<Rightarrow> notification \<times> nat \<Rightarrow> notification \<times> nat" where
  "apply_operations cfg clk ops s = fold (apply_operation cfg clk) ops s"

definition example_operations :: "operation list" where
  "example_operations =
     [UpdateStatus FAILED (Some ''timeout''), CanRetry, UpdateStatus SENT None,
      UpdateStatus PENDING None, UpdateStatus FAILED (Some ''refused'')]"



definition delivering_env :: env where
  "delivering_env =
     \<lparr> utcnow = second_clock, smtp = (\<lambda>i. Delivered), email_pattern = (\<lambda>r. CHR ''@'' \<in> set r) \<rparr>"












section \<open>Status transitions\<close>

lemma post_init_example:
  "post_init second_clock 0 ''id-1'' ''cid-1'' example_args = (Returns example_notification, 2)"
  by (simp add: post_init_def example_args_def example_notification_def second_clock_def
      scheduled_in_past_def reads_of_schedule_def)




section \<open>Retry eligibility\<close>









section \<open>Error tracking\<close>




section \<open>The retry counter and the error history\<close>

lemma update_status_keeps_count:
  assumes "retry_count n = length (error_messages n)"
  shows "retry_count (fst (snd (update_status clk k s m n))) =
         length (error_messages (fst (snd (update_status clk k s m n))))"
  using assms by (simp add: update_status_def Let_def track_error_def)

lemma apply_operation_keeps_count:
  assumes "retry_count (fst s) = length (error_messages (fst s))"
  shows "retry_count (fst (apply_operation cfg clk op s)) =
         length (error_messages (fst (apply_operation cfg clk op s)))"
proof (cases s)
  case (Pair n k)
  with assms show ?thesis
    by (cases op) (simp_all add: update_status_keeps_count)
qed

lemma apply_operations_keep_count:
  "retry_count (fst s) = length (error_messages (fst s)) \<Longrightarrow>
   retry_count (fst (apply_operations cfg clk ops s)) =
     length (error_messages (fst (apply_operations cfg clk ops s)))"
  unfolding apply_operations_def
  by (induction ops arbitrary: s) (simp_all add: apply_operation_keeps_count)

lemma post_init_count:
  "post_init clk k uid cid a = (Returns n0, k0) \<Longrightarrow> retry_count n0 = 0 \<and> error_messages n0 = []"
  by (auto simp add: post_init_def split: if_splits)

text \<open>
  Claim C7. retry_count equals the length of error_messages when the notification is
  created, and after any sequence of \<open>update_status\<close> calls (returning or raising) and
  \<open>can_retry\<close> calls on it; every single \<open>update_status\<close> call preserves the equality.
\<close>

theorem retry_count_matches_error_history:
  "(post_init clk k uid cid a = (Returns n0, k0) \<longrightarrow>
      retry_count n0 = length (error_messages n0)
      \<and> retry_count (fst (apply_operations cfg clk ops (n0, k0))) =
          length (error_messages (fst (apply_operations cfg clk ops (n0, k0)))))
   \<and> (retry_count n = length (error_messages n) \<longrightarrow>
        retry_count (fst (snd (update_status clk j s m n))) =
          length (error_messages (fst (snd (update_status clk j s m n)))))"
proof (intro conjI impI)
  assume "post_init clk k uid cid a = (Returns n0, k0)"
  then show "retry_count n0 = length (error_messages n0)"
    by (simp add: post_init_count)
next
  assume "post_init clk k uid cid a = (Returns n0, k0)"
  then have "retry_count (fst (n0, k0)) = length (error_messages (fst (n0, k0)))"
    by (simp add: post_init_count)
  then show "retry_count (fst (apply_operations cfg clk ops (n0, k0))) =
          length (error_messages (fst (apply_operations cfg clk ops (n0, k0))))"
    by (rule apply_operations_keep_count)
next
  assume "retry_count n = length (error_messages n)"
  then show "retry_count (fst (snd (update_status clk j s m n))) =
          length (error_messages (fst (snd (update_status clk j s m n))))"
    by (rule update_status_keeps_count)
qed


theorem retry_count_matches_error_history_witness:
  "post_init second_clock 0 ''id-1'' ''cid-1'' example_args = (Returns example_notification, 2)
   \<and> retry_count (fst (apply_operations example_config second_clock example_operations
        (example_notification, 2))) = 2
   \<and> length (error_messages (fst (apply_operations example_config second_clock
        example_operations (example_notification, 2)))) = 2
   \<and> retry_count failed_once = length (error_messages failed_once)
   \<and> retry_count (fst (snd (update_status second_clock 7 PENDING None failed_once))) =
       length (error_messages (fst (snd (update_status second_clock 7 PENDING None failed_once))))"
proof -
  have c: "retry_count (fst (apply_operations example_config second_clock example_operations
        (example_notification, 2))) = 2"
    by code_simp
  have f: "retry_count failed_once = length (error_messages failed_once)"
    by (simp add: failed_once_def)
  from retry_count_matches_error_history
    [of second_clock 0 "''id-1''" "''cid-1''" example_args example_notification 2
        example_config example_operations failed_once 7 PENDING None]
    post_init_example c f
  show ?thesis by simp
qed

section \<open>Validation at construction\<close>









section \<open>Rate limiting\<close>

lemma update_status_never_blocks: "fst (update_status clk k s m n) \<noteq> Blocks"
  by (simp add: update_status_def Let_def)

lemma handle_with_limiters:
  "rate_limiters (snd (snd (handle_with pre e x n w))) = rate_limiters w"
  "priority_queues (snd (snd (handle_with pre e x n w))) = priority_queues w"
  by (simp_all add: handle_with_def split: prod.splits result.splits)

lemma send_email_once_limiters:
  "rate_limiters (snd (snd (send_email_once e n w))) = rate_limiters w"
  "priority_queues (snd (snd (send_email_once e n w))) = priority_queues w"
  by (simp_all add: send_email_once_def handle_error_def handle_smtp_error_def Let_def
      handle_with_limiters split: prod.splits result.splits transport_outcome.splits)

lemma on_exception_limiters:
  "rate_limiters (snd (snd (on_exception r e n w))) = rate_limiters w
   \<and> priority_queues (snd (snd (on_exception r e n w))) = priority_queues w"
proof (induction r arbitrary: n w)
  case 0
  then show ?case by (simp add: send_email_once_limiters)
next
  case (Suc r)
  obtain res n' w' where s: "send_email_once e n w = (res, n', w')"
    by (cases "send_email_once e n w") auto
  with send_email_once_limiters [of e n w]
  have k: "rate_limiters w' = rate_limiters w" "priority_queues w' = priority_queues w"
    by simp_all
  show ?case
  proof (cases res)
    case (Raises x)
    with s k Suc.IH [of n' w'] show ?thesis by simp
  qed (use s k in simp_all)
qed

lemma process_email_limiters:
  "rate_limiters (snd (snd (process_email_notification e n w))) = rate_limiters w"
  "priority_queues (snd (snd (process_email_notification e n w))) = priority_queues w"
  using on_exception_limiters [of "MAX_RETRIES - 1" e n w]
  by (auto simp add: process_email_notification_def send_email_def
      split: prod.splits result.splits)

lemma on_processing_error_limiters:
  "rate_limiters (snd (snd (on_processing_error e x n w))) = rate_limiters w"
  "priority_queues (snd (snd (on_processing_error e x n w))) = priority_queues w"
  by (simp_all add: on_processing_error_def split: prod.splits result.splits)

lemma enqueue_limiters: "rate_limiters (snd (enqueue p n w)) = rate_limiters w"
  by (simp add: enqueue_def)

lemma process_by_type_limiters:
  "rate_limiters (snd (snd (case notification_type n of
       EMAIL \<Rightarrow> process_email_notification e n w
     | IN_APP \<Rightarrow> process_in_app_notification e n w
     | SYSTEM \<Rightarrow> process_system_notification e n w))) = rate_limiters w"
  by (cases "notification_type n")
     (simp_all add: process_email_limiters process_in_app_notification_def
        process_system_notification_def)

lemma send_notification_once_limiters:
  "rate_limiters (snd (snd (send_notification_once e n p w))) = rate_limiters w"
proof (cases "check_rate_limit (notification_type n) w")
  case False
  obtain r w' where q: "enqueue p n w = (r, w')"
    by (cases "enqueue p n w") auto
  with enqueue_limiters [of p n w] have "rate_limiters w' = rate_limiters w" by simp
  with False q show ?thesis
    by (cases r) (simp_all add: send_notification_once_def on_processing_error_limiters)
next
  case True
  obtain res n1 w1 where pr: "(case notification_type n of
       EMAIL \<Rightarrow> process_email_notification e n w
     | IN_APP \<Rightarrow> process_in_app_notification e n w
     | SYSTEM \<Rightarrow> process_system_notification e n w) = (res, n1, w1)"
    using prod_cases3 by blast
  with process_by_type_limiters [where n = n and e = e and w = w] have k: "rate_limiters w1 = rate_limiters w"
    by simp
  show ?thesis
  proof (cases res)
    case (Returns success)
    obtain r2 n2 k2 where u: "update_status (utcnow e) (reads w1)
        (if success then SENT else FAILED) None n1 = (r2, n2, k2)"
      using prod_cases3 by blast
    from True pr k Returns u show ?thesis
      by (cases r2) (simp_all add: send_notification_once_def on_processing_error_limiters)
  qed (use True pr k in \<open>simp_all add: send_notification_once_def on_processing_error_limiters\<close>)
qed

lemma retry_policy_limiters:
  "rate_limiters (snd (snd (retry_policy r e n p w))) = rate_limiters w"
proof (induction r arbitrary: n w)
  case 0
  obtain res n' w' where s: "send_notification_once e n p w = (res, n', w')"
    using prod_cases3 by blast
  with send_notification_once_limiters [of e n p w]
  have "rate_limiters w' = rate_limiters w" by simp
  with s show ?case by (cases res) simp_all
next
  case (Suc r)
  obtain res n' w' where s: "send_notification_once e n p w = (res, n', w')"
    using prod_cases3 by blast
  with send_notification_once_limiters [of e n p w]
  have k: "rate_limiters w' = rate_limiters w" by simp
  show ?case
  proof (cases res)
    case (Raises x)
    with s k Suc.IH [of n' w'] show ?thesis by simp
  qed (use s k in simp_all)
qed

text \<open>
  Claim C3 is not met by the code. \<open>_check_rate_limit\<close> answers true exactly when the
  counter is below the threshold, but nothing increments the counter: \<open>send_notification\<close>
  leaves every rate-limiter counter as it found it, so the check answers after a call as
  it did before, and from the initial state (all counters zero) every call is admitted.
\<close>

theorem rate_limiter_never_counts:
  "rate_limiters (snd (snd (send_notification e n p w))) = rate_limiters w
   \<and> check_rate_limit ty (snd (snd (send_notification e n p w))) = check_rate_limit ty w
   \<and> check_rate_limit ty initial_world
   \<and> check_rate_limit ty w = (rate_limiters w ty < max_rates ty)"
  by (cases ty) (simp_all add: send_notification_def retry_policy_limiters check_rate_limit_def
      initial_world_def)

theorem rate_limiter_never_counts_witness:
  "rate_limiters (snd (snd (send_notification delivering_env example_notification HIGH
      initial_world))) IN_APP = 0
   \<and> check_rate_limit IN_APP (snd (snd (send_notification delivering_env example_notification HIGH
      initial_world)))"
  using rate_limiter_never_counts [of delivering_env example_notification HIGH initial_world IN_APP]
  by (simp add: initial_world_def)

section \<open>Queue capacity\<close>






section \<open>Outcome of a delivery\<close>


section \<open>Scheduled notifications\<close>




section \<open>Order of dispatch\<close>

















end
